theory Spec2Isabelle
  imports Main
begin

section \<open>Invoice extraction pipeline (app/functions.py)\<close>

text \<open>
  The module is a thin pipeline over external libraries: a PDF parser, a text splitter,
  an embedding model, a vector store, a language model and a data-frame library.
  Every function of the module is embedded as a HOL function of the same name. What the
  module does to the outside world is explicit state: the file system (temporary files)
  and the vector database. Every library call that can raise is an oracle of the
  environment that returns either an error or a value; an exception is the value
  \<open>Inl e\<close> and propagates exactly where the Python propagates it.

  Strings are \<open>string\<close>: one \<open>char\<close> per character, for the characters with code
  points below 256.
\<close>

subsection \<open>Values, errors and the environment\<close>

type_synonym path = string
type_synonym bytes = string
type_synonym filesystem = "path \<rightharpoonup> bytes"
type_synonym vector = "int list"

text \<open>
  \<open>External\<close> is an exception of a library's own class (the argument names it); the
  other constructors are Python's built-in exceptions of these names, with the name or
  message they carry.
\<close>

datatype pyerr =
    External string
  | UnboundLocalError string
  | NameError string
  | ValueError string
  | FileNotFoundError string

text \<open>A langchain \<open>Document\<close>: the text and its metadata (source, page).\<close>

record document =
  page_content :: string
  metadata :: "(string \<times> string) list"

text \<open>
  A Streamlit uploaded file: its \<open>name\<close> attribute and what \<open>read()\<close> does
  (returns the bytes or raises).
\<close>

record uploaded_file =
  name :: string
  read :: "pyerr + bytes"

text \<open>A pydantic \<open>ExtractedInfo\<close> object, as the language model returns it.\<close>

record ExtractedInfo =
  invoice_items :: string
  invoice_date :: string
  business_name :: string
  total_amount :: string

text \<open>
  One entry of a Chroma collection, and the database: collections by
  (persist directory, collection name), each a map from id to entry.
\<close>

record entry =
  embedding :: vector
  entry_document :: document

type_synonym collection = "string \<rightharpoonup> entry"
type_synonym database = "(string \<times> string) \<rightharpoonup> collection"

text \<open>
  The library calls of the module, as oracles:
  \<^item> \<open>NamedTemporaryFile\<close>: \<open>tempfile.NamedTemporaryFile(delete=False)\<close>, the path of the
    new file, or an error;
  \<^item> \<open>temp_write\<close>: \<open>temp_file.write(input_file)\<close>, \<open>Some e\<close> when it raises;
  \<^item> \<open>PyPDFLoader_load\<close>: \<open>PyPDFLoader(path).load()\<close> on the file's bytes;
  \<^item> \<open>uuid5_dns\<close>: \<open>str(uuid.uuid5(uuid.NAMESPACE_DNS, text))\<close>;
  \<^item> \<open>set_iteration\<close>: the order in which Python iterates a set of strings that was
    built by adding the given strings in the given order (\<open>list(unique_ids)\<close>);
    Python leaves it unspecified (it follows the strings' hashes);
  \<^item> \<open>valid_collection_name\<close>: Chroma's check of a collection name;
  \<^item> \<open>OllamaEmbeddings\<close>: the constructor of the embedder, called with the given keyword
    arguments (names and values), \<open>Some e\<close> when it raises;
  \<^item> \<open>embed_documents\<close>: \<open>embed_documents\<close> of a constructed embedder;
  \<^item> \<open>similarity_search\<close>: the retriever over a collection;
  \<^item> \<open>structured_llm\<close>: \<open>ChatOllama(...).with_structured_output(ExtractedInfo)\<close>
    invoked on the formatted prompt.
\<close>

record environment =
  NamedTemporaryFile :: "filesystem \<Rightarrow> pyerr + path"
  temp_write :: "path \<Rightarrow> bytes \<Rightarrow> pyerr option"
  PyPDFLoader_load :: "path \<Rightarrow> bytes \<Rightarrow> pyerr + document list"
  uuid5_dns :: "string \<Rightarrow> string"
  set_iteration :: "string list \<Rightarrow> string list"
  valid_collection_name :: "string \<Rightarrow> bool"
  OllamaEmbeddings :: "(string \<times> string) list \<Rightarrow> pyerr option"
  embed_documents :: "string list \<Rightarrow> pyerr + vector list"
  similarity_search :: "collection \<Rightarrow> string \<Rightarrow> pyerr + document list"
  structured_llm :: "string \<Rightarrow> pyerr + ExtractedInfo"

subsection \<open>clean_filename\<close>

text \<open>
  Python's \<open>\s\<close> and \<open>str.strip()\<close> on the code points below 256: tab, line feed,
  vertical tab, form feed, carriage return, the four separators 28..31, space, next line
  (133) and no-break space (160). \<open>\d\<close> on these code points: 0..9.
\<close>

definition py_isspace :: "char \<Rightarrow> bool" where
  "py_isspace c =
     (let n = (of_char c :: nat)
      in (9 \<le> n \<and> n \<le> 13) \<or> (28 \<le> n \<and> n \<le> 32) \<or> n = 133 \<or> n = 160)"

definition py_isdigit :: "char \<Rightarrow> bool" where
  "py_isdigit c = (let n = (of_char c :: nat) in 48 \<le> n \<and> n \<le> 57)"

text \<open>
  A match of the pattern \<open>\s\(\d+\)\<close> at the start of a string: the rest of the string
  after the match, or \<open>None\<close>. The digits are taken greedily; a digit is never a
  parenthesis, so no shorter run of digits can match where the longest one does not.
\<close>

fun re_match :: "string \<Rightarrow> string option" where
  "re_match (w # p # rest) =
     (if py_isspace w \<and> p = CHR ''(''
      then (let digits = takeWhile py_isdigit rest; after = dropWhile py_isdigit rest
            in (case after of
                  [] \<Rightarrow> None
                | q # rest' \<Rightarrow> if digits \<noteq> [] \<and> q = CHR '')'' then Some rest' else None))
      else None)"
| "re_match _ = None"

lemma re_match_shorter: "re_match s = Some r \<Longrightarrow> length r < length s"
proof (cases s rule: re_match.cases)
  case (1 w p rest)
  assume m: "re_match s = Some r"
  have "length (dropWhile py_isdigit rest) \<le> length rest"
    by (rule length_dropWhile_le)
  with m 1 show ?thesis
    by (auto simp: Let_def split: if_splits list.splits)
qed auto

text \<open>
  \<open>re.sub(r'\s\(\d+\)', '', filename)\<close>: every non-overlapping match, leftmost first,
  is removed.
\<close>

function clean_filename :: "string \<Rightarrow> string" where
  "clean_filename [] = []"
| "clean_filename (c # cs) =
     (case re_match (c # cs) of
        Some rest \<Rightarrow> clean_filename rest
      | None \<Rightarrow> c # clean_filename cs)"
  by pat_completeness auto
termination
  by (relation "measure length") (auto dest: re_match_shorter)

subsection \<open>get_pdf_text\<close>

text \<open>\<open>os.unlink(path)\<close>: removes the file, or raises when there is none.\<close>

definition os_unlink :: "path \<Rightarrow> filesystem \<Rightarrow> pyerr + filesystem" where
  "os_unlink p fs = (if p \<in> dom fs then Inr (fs(p := None)) else Inl (FileNotFoundError p))"

text \<open>
  The \<open>try\<close> block. It returns how the block ended (the documents, or the exception in
  flight), the binding of the local variable \<open>temp_file\<close> at that point (\<open>None\<close>: never
  assigned) and the file system. \<open>NamedTemporaryFile(delete=False)\<close> creates an empty file
  that stays on disk after \<open>close()\<close>.
\<close>

definition get_pdf_text_try ::
  "environment \<Rightarrow> uploaded_file \<Rightarrow> filesystem
     \<Rightarrow> (pyerr + document list) \<times> path option \<times> filesystem" where
  "get_pdf_text_try env uploaded fs =
     (case read uploaded of
        Inl e \<Rightarrow> (Inl e, None, fs)
      | Inr input_file \<Rightarrow>
          (case NamedTemporaryFile env fs of
             Inl e \<Rightarrow> (Inl e, None, fs)
           | Inr temp_file \<Rightarrow>
               (let fs1 = fs(temp_file \<mapsto> [])
                in (case temp_write env temp_file input_file of
                      Some e \<Rightarrow> (Inl e, Some temp_file, fs1)
                    | None \<Rightarrow>
                        (let fs2 = fs1(temp_file \<mapsto> input_file)
                         in (PyPDFLoader_load env temp_file input_file, Some temp_file, fs2))))))"

text \<open>
  The \<open>finally\<close> block runs on every exit of the \<open>try\<close> block. It evaluates
  \<open>temp_file.name\<close> first: an unassigned local raises \<open>UnboundLocalError\<close>. An exception
  raised in \<open>finally\<close> replaces the one in flight; when \<open>finally\<close> completes, the
  outcome of the \<open>try\<close> block stands.
\<close>

definition get_pdf_text ::
  "environment \<Rightarrow> uploaded_file \<Rightarrow> filesystem \<Rightarrow> (pyerr + document list) \<times> filesystem" where
  "get_pdf_text env uploaded fs =
     (case get_pdf_text_try env uploaded fs of
        (outcome, temp_file, fs1) \<Rightarrow>
          (case temp_file of
             None \<Rightarrow> (Inl (UnboundLocalError ''temp_file''), fs1)
           | Some p \<Rightarrow>
               (case os_unlink p fs1 of
                  Inl e \<Rightarrow> (Inl e, fs1)
                | Inr fs2 \<Rightarrow> (outcome, fs2))))"

subsection \<open>split_document\<close>

text \<open>
  \<open>split_document\<close> builds a \<open>RecursiveCharacterTextSplitter\<close> with the given chunk size
  and overlap, \<open>length_function=len\<close> and the separators \<open>["\n\n", "\n", " "]\<close>, and
  calls \<open>split_documents\<close>. The splitter is the library's; its options that the module
  leaves at their defaults are \<open>keep_separator=True\<close> (a separator stays at the start of
  the piece that follows it, and pieces are joined with the empty string),
  \<open>is_separator_regex=False\<close> (separators are literal) and \<open>strip_whitespace=True\<close>.
  The functions below follow the library's \<open>_split_text_with_regex\<close>, \<open>_join_docs\<close>,
  \<open>_merge_splits\<close> and \<open>_split_text\<close> under these options. An \<open>IndexError\<close> inside the
  library is the value \<open>None\<close>.
\<close>

definition separators :: "string list" where
  "separators = [[CHR 0x0A, CHR 0x0A], [CHR 0x0A], '' '']"

definition starts_with :: "string \<Rightarrow> string \<Rightarrow> bool" where
  "starts_with sep s = (take (length sep) s = sep)"

text \<open>\<open>re.search(re.escape(sep), text)\<close>: the literal \<open>sep\<close> occurs in \<open>text\<close>.\<close>

fun contains :: "string \<Rightarrow> string \<Rightarrow> bool" where
  "contains sep [] = (sep = [])"
| "contains sep (c # cs) = (starts_with sep (c # cs) \<or> contains sep cs)"

text \<open>
  \<open>re.split\<close> on the parenthesised literal separator gives \<open>[t0, sep, t1, sep, t2, ...]\<close>
  (leftmost non-overlapping occurrences); the library then glues every separator to the text
  that follows it: \<open>[t0, sep + t1, sep + t2, ...]\<close>. \<open>split_keep sep cur text\<close> is that
  list, \<open>cur\<close> being the piece under construction.
\<close>

function split_keep :: "string \<Rightarrow> string \<Rightarrow> string \<Rightarrow> string list" where
  "split_keep sep cur [] = [cur]"
| "split_keep sep cur (c # cs) =
     (if sep \<noteq> [] \<and> starts_with sep (c # cs)
      then cur # split_keep sep sep (drop (length sep) (c # cs))
      else split_keep sep (cur @ [c]) cs)"
  by pat_completeness auto
termination
  by (relation "measure (\<lambda>(sep, cur, text). length text)") auto

text \<open>An empty separator splits into single characters. Empty pieces are dropped.\<close>

definition split_text_with_regex :: "string \<Rightarrow> string \<Rightarrow> string list" where
  "split_text_with_regex text separator =
     filter (\<lambda>s. s \<noteq> [])
       (if separator \<noteq> [] then split_keep separator [] text else map (\<lambda>c. [c]) text)"

definition py_strip :: "string \<Rightarrow> string" where
  "py_strip s = rev (dropWhile py_isspace (rev (dropWhile py_isspace s)))"

text \<open>\<open>_join_docs\<close> with the empty separator: \<open>None\<close> when nothing but whitespace is left.\<close>

definition join_docs :: "string list \<Rightarrow> string option" where
  "join_docs docs = (let text = py_strip (concat docs) in if text = [] then None else Some text)"

definition append_doc :: "string list \<Rightarrow> string list \<Rightarrow> string list" where
  "append_doc docs current_doc =
     (case join_docs current_doc of None \<Rightarrow> docs | Some doc \<Rightarrow> docs @ [doc])"

text \<open>
  The inner \<open>while\<close> loop of \<open>_merge_splits\<close>: pieces are popped from the front of
  \<open>current_doc\<close> while more than the overlap is kept, or while the next piece (of length
  \<open>len\<close>) does not fit. \<open>current_doc[0]\<close> on an empty list is an \<open>IndexError\<close>.
\<close>

fun pop_while ::
  "nat \<Rightarrow> nat \<Rightarrow> nat \<Rightarrow> int \<Rightarrow> string list \<Rightarrow> (int \<times> string list) option" where
  "pop_while chunk_size chunk_overlap len total_len current_doc =
     (if total_len > int chunk_overlap \<or> (total_len + int len > int chunk_size \<and> total_len > 0)
      then (case current_doc of
              [] \<Rightarrow> None
            | x # xs \<Rightarrow> pop_while chunk_size chunk_overlap len (total_len - int (length x)) xs)
      else Some (total_len, current_doc))"

text \<open>The \<open>for\<close> loop of \<open>_merge_splits\<close> and its final flush.\<close>

fun merge_loop ::
  "nat \<Rightarrow> nat \<Rightarrow> string list \<Rightarrow> string list \<Rightarrow> string list \<Rightarrow> int \<Rightarrow> string list option" where
  "merge_loop chunk_size chunk_overlap [] docs current_doc total_len =
     Some (append_doc docs current_doc)"
| "merge_loop chunk_size chunk_overlap (d # ds) docs current_doc total_len =
     (let len = length d
      in if total_len + int len > int chunk_size \<and> current_doc \<noteq> []
         then (case pop_while chunk_size chunk_overlap len total_len current_doc of
                 None \<Rightarrow> None
               | Some (total_len', current_doc') \<Rightarrow>
                   merge_loop chunk_size chunk_overlap ds (append_doc docs current_doc)
                     (current_doc' @ [d]) (total_len' + int len))
         else merge_loop chunk_size chunk_overlap ds docs (current_doc @ [d]) (total_len + int len))"

definition merge_splits :: "nat \<Rightarrow> nat \<Rightarrow> string list \<Rightarrow> string list option" where
  "merge_splits chunk_size chunk_overlap splits = merge_loop chunk_size chunk_overlap splits [] [] 0"

text \<open>
  The choice of the separator in \<open>_split_text\<close>: the first separator of the list that
  is empty or occurs in the text, with the separators after it for the recursion; when the
  loop never breaks, the last separator and no further ones. \<open>separators[-1]\<close> on an empty
  list is an \<open>IndexError\<close>.
\<close>

fun find_separator :: "string list \<Rightarrow> string \<Rightarrow> (string \<times> string list) option" where
  "find_separator [] text = None"
| "find_separator (s # rest) text =
     (if s = [] then Some (s, [])
      else if contains s text then Some (s, rest)
      else find_separator rest text)"

definition choose_separator :: "string list \<Rightarrow> string \<Rightarrow> (string \<times> string list) option" where
  "choose_separator seps text =
     (if seps = [] then None
      else (case find_separator seps text of
              None \<Rightarrow> Some (last seps, [])
            | Some r \<Rightarrow> Some r))"

lemma find_separator_shorter:
  "find_separator seps text = Some (sep, new_separators) \<Longrightarrow> length new_separators < length seps"
  by (induction seps) (auto split: if_splits)

lemma choose_separator_shorter:
  "choose_separator seps text = Some (sep, new_separators) \<Longrightarrow> length new_separators < length seps"
  by (auto simp: choose_separator_def split: if_splits option.splits dest: find_separator_shorter)

text \<open>
  The loop of \<open>_split_text\<close> over the pieces: pieces shorter than the chunk size are
  collected in \<open>good_splits\<close> and merged; a piece that is not shorter flushes the
  collected ones and is then split further by \<open>recurse\<close>, or, when no separator is left
  (\<open>recurse = None\<close>), appended whole.
\<close>

definition flush_good :: "nat \<Rightarrow> nat \<Rightarrow> string list \<Rightarrow> string list option" where
  "flush_good chunk_size chunk_overlap good_splits =
     (if good_splits \<noteq> [] then merge_splits chunk_size chunk_overlap good_splits else Some [])"

fun split_loop ::
  "nat \<Rightarrow> nat \<Rightarrow> (string \<Rightarrow> string list option) option \<Rightarrow> string list \<Rightarrow> string list
     \<Rightarrow> string list option" where
  "split_loop chunk_size chunk_overlap recurse good_splits [] =
     flush_good chunk_size chunk_overlap good_splits"
| "split_loop chunk_size chunk_overlap recurse good_splits (s # ss) =
     (if length s < chunk_size
      then split_loop chunk_size chunk_overlap recurse (good_splits @ [s]) ss
      else (case flush_good chunk_size chunk_overlap good_splits of
              None \<Rightarrow> None
            | Some merged \<Rightarrow>
                (case (case recurse of None \<Rightarrow> Some [s] | Some f \<Rightarrow> f s) of
                   None \<Rightarrow> None
                 | Some other_info \<Rightarrow>
                     (case split_loop chunk_size chunk_overlap recurse [] ss of
                        None \<Rightarrow> None
                      | Some final_chunks \<Rightarrow> Some (merged @ other_info @ final_chunks)))))"

function split_text :: "nat \<Rightarrow> nat \<Rightarrow> string \<Rightarrow> string list \<Rightarrow> string list option" where
  "split_text chunk_size chunk_overlap text seps =
     (case choose_separator seps text of
        None \<Rightarrow> None
      | Some (separator, new_separators) \<Rightarrow>
          split_loop chunk_size chunk_overlap
            (if new_separators = [] then None
             else Some (\<lambda>s. split_text chunk_size chunk_overlap s new_separators))
            [] (split_text_with_regex text separator))"
  by pat_completeness auto
termination
  by (relation "measure (\<lambda>(chunk_size, chunk_overlap, text, seps). length seps)")
     (auto dest: choose_separator_shorter)

text \<open>
  \<open>split_documents\<close>: every document is split on its own and every chunk inherits the
  metadata of its document.
\<close>

fun split_documents :: "nat \<Rightarrow> nat \<Rightarrow> document list \<Rightarrow> document list option" where
  "split_documents chunk_size chunk_overlap [] = Some []"
| "split_documents chunk_size chunk_overlap (d # ds) =
     (case split_text chunk_size chunk_overlap (page_content d) separators of
        None \<Rightarrow> None
      | Some chunks \<Rightarrow>
          (case split_documents chunk_size chunk_overlap ds of
             None \<Rightarrow> None
           | Some rest \<Rightarrow>
               Some (map (\<lambda>c. \<lparr>page_content = c, metadata = metadata d\<rparr>) chunks @ rest)))"

text \<open>
  The constructor of the splitter raises \<open>ValueError\<close> when the overlap is larger than the
  chunk size.
\<close>

definition split_document :: "document list \<Rightarrow> nat \<Rightarrow> nat \<Rightarrow> pyerr + document list" where
  "split_document documents chunk_size chunk_overlap =
     (if chunk_overlap > chunk_size then Inl (ValueError ''chunk_overlap'')
      else (case split_documents chunk_size chunk_overlap documents of
              None \<Rightarrow> Inl (External ''IndexError'')
            | Some chunks \<Rightarrow> Inr chunks))"

text \<open>
  For the proofs about the splitter: the total length of a list of pieces (what the
  variable \<open>total\<close> of \<open>_merge_splits\<close> holds for \<open>current_doc\<close>), and the chunks allowed
  by the size bound, or else not breakable at the character \<open>ch\<close>.
\<close>

definition pieces_len :: "string list \<Rightarrow> int" where
  "pieces_len xs = int (sum_list (map length xs))"


text \<open>
  The loop of \<open>_merge_splits\<close> once more, recording what it joins instead of the joined
  text. Every \<open>current_doc\<close> that is joined into a chunk is recorded as a window, a pair: the
  pieces kept from the window before it (what \<open>pop_while\<close> left of that window) and the pieces
  added to it since. The loop is the one of \<open>merge_loop\<close>, with \<open>current_doc\<close> held as
  \<open>kept @ added\<close>.
\<close>

fun merge_trace ::
  "nat \<Rightarrow> nat \<Rightarrow> string list \<Rightarrow> (string list \<times> string list) list \<Rightarrow> string list
     \<Rightarrow> string list \<Rightarrow> int \<Rightarrow> (string list \<times> string list) list option" where
  "merge_trace chunk_size chunk_overlap [] windows kept added total_len =
     Some (windows @ [(kept, added)])"
| "merge_trace chunk_size chunk_overlap (d # ds) windows kept added total_len =
     (let len = length d
      in if total_len + int len > int chunk_size \<and> kept @ added \<noteq> []
         then (case pop_while chunk_size chunk_overlap len total_len (kept @ added) of
                 None \<Rightarrow> None
               | Some (total_len', current_doc') \<Rightarrow>
                   merge_trace chunk_size chunk_overlap ds (windows @ [(kept, added)])
                     current_doc' [d] (total_len' + int len))
         else merge_trace chunk_size chunk_overlap ds windows kept (added @ [d])
                (total_len + int len))"

text \<open>
  How a window \<open>w2\<close> follows a window \<open>w1\<close>: \<open>w2\<close> has new pieces; the pieces it keeps
  are the last pieces of \<open>w1\<close>; their total length is at most the overlap; and they are as
  many as the loop may keep: keeping one more piece of \<open>w1\<close> would exceed the overlap, or
  would not fit in the chunk size together with the first new piece.
\<close>

definition carries_over ::
  "nat \<Rightarrow> nat \<Rightarrow> string list \<times> string list \<Rightarrow> string list \<times> string list \<Rightarrow> bool" where
  "carries_over chunk_size chunk_overlap w1 w2 =
     (let before = fst w1 @ snd w1;
          kept = fst w2;
          dropped = take (length before - length kept) before
      in snd w2 \<noteq> []
         \<and> length kept \<le> length before
         \<and> drop (length before - length kept) before = kept
         \<and> pieces_len kept \<le> int chunk_overlap
         \<and> (dropped = []
            \<or> pieces_len (last dropped # kept) > int chunk_overlap
            \<or> pieces_len (last dropped # kept) + int (length (hd (snd w2))) > int chunk_size))"

subsection \<open>create_vectorstore\<close>

text \<open>
  The loop that keeps the first chunk of every id. The Python set \<open>unique_ids\<close> is
  represented by the list of its elements in the order in which they were added; membership
  is membership in that list.
\<close>

fun dedup_loop ::
  "(document \<times> string) list \<Rightarrow> string list \<Rightarrow> document list \<Rightarrow> string list \<times> document list" where
  "dedup_loop [] unique_ids unique_chunks = (unique_ids, unique_chunks)"
| "dedup_loop ((chunk, cid) # rest) unique_ids unique_chunks =
     (if cid \<notin> set unique_ids
      then dedup_loop rest (unique_ids @ [cid]) (unique_chunks @ [chunk])
      else dedup_loop rest unique_ids unique_chunks)"

text \<open>The list comprehension that computes the ids, from the text of each chunk.\<close>

definition chunk_ids :: "environment \<Rightarrow> document list \<Rightarrow> string list" where
  "chunk_ids env chunks = map (\<lambda>doc. uuid5_dns env (page_content doc)) chunks"

type_synonym vectorstore = "string \<times> string"

text \<open>
  \<open>Chroma.from_documents\<close>: the collection of that name under the persist directory is
  opened, or created when there is none (\<open>get_or_create_collection\<close>); the texts are
  embedded; the entries are written under the given ids with \<open>upsert\<close>, position by
  position. The store rejects an invalid collection name, an empty list (\<open>upsert\<close> raises
  \<open>ValueError\<close> for no ids), lists of different lengths and a repeated id. The result is the
  handle of the collection.
\<close>

definition Chroma_from_documents ::
  "environment \<Rightarrow> document list \<Rightarrow> string \<Rightarrow> (string list \<Rightarrow> pyerr + vector list)
     \<Rightarrow> string list \<Rightarrow> string \<Rightarrow> database \<Rightarrow> (pyerr + vectorstore) \<times> database" where
  "Chroma_from_documents env documents collection_name embedding_function ids persist_directory db =
     (if \<not> valid_collection_name env collection_name
      then (Inl (ValueError collection_name), db)
      else (let handle = (persist_directory, collection_name);
                coll = (case db handle of None \<Rightarrow> Map.empty | Some c \<Rightarrow> c);
                db1 = db(handle \<mapsto> coll)
            in (case embedding_function (map page_content documents) of
                  Inl e \<Rightarrow> (Inl e, db1)
                | Inr embeddings \<Rightarrow>
                    if ids = [] \<or> documents = [] then (Inl (ValueError ''ids''), db1)
                    else if length ids \<noteq> length documents
                            \<or> length embeddings \<noteq> length documents
                    then (Inl (ValueError ''ids''), db1)
                    else if \<not> distinct ids
                    then (Inl (External ''DuplicateIDError''), db1)
                    else (Inr handle,
                          db1(handle \<mapsto>
                            coll(ids [\<mapsto>]
                              map (\<lambda>(v, doc). \<lparr>embedding = v, entry_document = doc\<rparr>)
                                (zip embeddings documents)))))))"

text \<open>
  \<open>create_vectorstore\<close>. The ids handed to the store are \<open>list(unique_ids)\<close>: the
  iteration order of the set. \<open>persist()\<close> changes nothing in this model: every write to
  the database is already in \<open>db\<close>.
\<close>

definition create_vectorstore ::
  "environment \<Rightarrow> document list \<Rightarrow> (string list \<Rightarrow> pyerr + vector list) \<Rightarrow> string \<Rightarrow> string
     \<Rightarrow> database \<Rightarrow> (pyerr + vectorstore) \<times> database" where
  "create_vectorstore env chunks embedding_function file_name vector_store_path db =
     (let ids = chunk_ids env chunks
      in (case dedup_loop (zip chunks ids) [] [] of
            (unique_ids, unique_chunks) \<Rightarrow>
              Chroma_from_documents env unique_chunks (clean_filename file_name)
                embedding_function (set_iteration env unique_ids) vector_store_path db))"

text \<open>
  \<open>get_embedding_function\<close> constructs the embedder on every call, with the keyword
  arguments \<open>model="nomic-embed-text"\<close> and \<open>show_progress=False\<close>; an exception of the
  constructor propagates.
\<close>

definition get_embedding_function :: "environment \<Rightarrow> pyerr + (string list \<Rightarrow> pyerr + vector list)" where
  "get_embedding_function env =
     (case OllamaEmbeddings env [(''model'', ''nomic-embed-text''), (''show_progress'', ''False'')] of
        Some e \<Rightarrow> Inl e
      | None \<Rightarrow> Inr (embed_documents env))"

text \<open>
  \<open>create_vectorstore_from_texts\<close>: the documents are split with chunk size 1000 and overlap
  200, then the embedder is constructed, then the store is created.
\<close>

definition create_vectorstore_from_texts ::
  "environment \<Rightarrow> document list \<Rightarrow> string \<Rightarrow> database \<Rightarrow> (pyerr + vectorstore) \<times> database" where
  "create_vectorstore_from_texts env documents file_name db =
     (case split_document documents 1000 200 of
        Inl e \<Rightarrow> (Inl e, db)
      | Inr chunks \<Rightarrow>
          (case get_embedding_function env of
             Inl e \<Rightarrow> (Inl e, db)
           | Inr embedding_function \<Rightarrow>
               create_vectorstore env chunks embedding_function file_name ''db'' db))"

text \<open>
  The two results of the loop as \<open>create_vectorstore\<close> runs it: the set \<open>unique_ids\<close> (in
  insertion order) and the list \<open>unique_chunks\<close>.
\<close>

definition unique_ids :: "environment \<Rightarrow> document list \<Rightarrow> string list" where
  "unique_ids env chunks = fst (dedup_loop (zip chunks (chunk_ids env chunks)) [] [])"

definition unique_chunks :: "environment \<Rightarrow> document list \<Rightarrow> document list" where
  "unique_chunks env chunks = snd (dedup_loop (zip chunks (chunk_ids env chunks)) [] [])"

text \<open>
  The positions of a list whose element is the first one with its key \<open>h\<close>: the reference
  against which the loop is checked.
\<close>

definition first_positions :: "('a \<Rightarrow> 'b) \<Rightarrow> 'a list \<Rightarrow> nat list" where
  "first_positions h xs = filter (\<lambda>i. \<forall>j<i. h (xs ! j) \<noteq> h (xs ! i)) [0..<length xs]"

text \<open>The text of the entry stored under a key of a collection, if there is one.\<close>

definition stored_text :: "database \<Rightarrow> vectorstore \<Rightarrow> string \<Rightarrow> string option" where
  "stored_text db handle k =
     (case db handle of
        None \<Rightarrow> None
      | Some coll \<Rightarrow> map_option (\<lambda>e. page_content (entry_document e)) (coll k))"

subsection \<open>query_document\<close>

text \<open>\<open>"\n\n".join(doc.page_content for doc in docs)\<close>\<close>

fun join_blank_line :: "string list \<Rightarrow> string" where
  "join_blank_line [] = []"
| "join_blank_line [t] = t"
| "join_blank_line (t # ts) = t @ [CHR 0x0A, CHR 0x0A] @ join_blank_line ts"

definition format_docs :: "document list \<Rightarrow> string" where
  "format_docs docs = join_blank_line (map page_content docs)"

text \<open>\<open>PROMPT_TEMPLATE\<close> with \<open>{context}\<close> and \<open>{question}\<close> filled in.\<close>

definition PROMPT_TEMPLATE :: "string \<Rightarrow> string \<Rightarrow> string" where
  "PROMPT_TEMPLATE context question =
     [CHR 0x0A] @ ''You are an assistant for question-answering tasks.'' @ [CHR 0x0A]
     @ ''Use the following pieces of retrieved context to answer'' @ [CHR 0x0A]
     @ ''the question. If you don'' @ [CHR 0x27] @ ''t know the answer, say that you'' @ [CHR 0x0A]
     @ ''don'' @ [CHR 0x27] @ ''t know. DON'' @ [CHR 0x27] @ ''T MAKE UP ANYTHING.''
     @ [CHR 0x0A, CHR 0x0A] @ context @ [CHR 0x0A, CHR 0x0A] @ ''---'' @ [CHR 0x0A, CHR 0x0A]
     @ ''Answer the question based on the above context: '' @ question @ [CHR 0x0A]"

text \<open>A pandas \<open>DataFrame\<close>: the column names and the rows; \<open>None\<close> is a missing cell.\<close>

record DataFrame =
  columns :: "string list"
  rows :: "string option list list"

text \<open>
  The chain: the retriever's documents are formatted into the context, the prompt is sent to
  the model, and the structured answer becomes a frame of one row.
\<close>

definition query_document :: "environment \<Rightarrow> vectorstore \<Rightarrow> string \<Rightarrow> database \<Rightarrow> pyerr + DataFrame" where
  "query_document env vs query db =
     (case (case db vs of
              None \<Rightarrow> Inl (External ''collection'')
            | Some coll \<Rightarrow> similarity_search env coll query) of
        Inl e \<Rightarrow> Inl e
      | Inr docs \<Rightarrow>
          (case structured_llm env (PROMPT_TEMPLATE (format_docs docs) query) of
             Inl e \<Rightarrow> Inl e
           | Inr structured_response \<Rightarrow>
               Inr \<lparr>columns = [''Invoice Items'', ''Invoice Date'', ''Business Name'', ''Total Amount''],
                    rows = [[Some (invoice_items structured_response),
                             Some (invoice_date structured_response),
                             Some (business_name structured_response),
                             Some (total_amount structured_response)]]\<rparr>))"

subsection \<open>process_multiple_pdfs\<close>

text \<open>\<open>df.insert(0, column, value)\<close>: a new first column; a column of that name must not exist.\<close>

definition df_insert0 :: "string \<Rightarrow> string \<Rightarrow> DataFrame \<Rightarrow> pyerr + DataFrame" where
  "df_insert0 column v df =
     (if column \<in> set (columns df) then Inl (ValueError column)
      else Inr \<lparr>columns = column # columns df, rows = map (\<lambda>r. Some v # r) (rows df)\<rparr>)"

text \<open>
  \<open>pd.concat(results, ignore_index=True)\<close>: no frame at all is a \<open>ValueError\<close>; the
  columns are those of the frames in order of first appearance, the rows follow frame by
  frame, and a cell of a column that a frame does not have is missing.
\<close>

fun first_occurrences :: "'a list \<Rightarrow> 'a list \<Rightarrow> 'a list" where
  "first_occurrences seen [] = []"
| "first_occurrences seen (x # xs) =
     (if x \<in> set seen then first_occurrences seen xs else x # first_occurrences (seen @ [x]) xs)"

definition reindex :: "string list \<Rightarrow> DataFrame \<Rightarrow> string option list list" where
  "reindex cols df =
     map (\<lambda>r. map (\<lambda>c. (case map_of (zip (columns df) r) c of None \<Rightarrow> None | Some cell \<Rightarrow> cell)) cols)
       (rows df)"

definition pd_concat :: "DataFrame list \<Rightarrow> pyerr + DataFrame" where
  "pd_concat frames =
     (if frames = [] then Inl (ValueError ''No objects to concatenate'')
      else (let cols = first_occurrences [] (concat (map columns frames))
            in Inr \<lparr>columns = cols, rows = concat (map (reindex cols) frames)\<rparr>))"

text \<open>
  The loop over the uploaded files. No statement of the loop catches an exception: the
  first one ends the run. The file system and the database are returned as the run left them.
\<close>

fun process_loop ::
  "environment \<Rightarrow> uploaded_file list \<Rightarrow> string \<Rightarrow> DataFrame list \<Rightarrow> filesystem \<Rightarrow> database
     \<Rightarrow> (pyerr + DataFrame list) \<times> filesystem \<times> database" where
  "process_loop env [] query results fs db = (Inr results, fs, db)"
| "process_loop env (pdf_file # rest) query results fs db =
     (let file_name = name pdf_file
      in (case get_pdf_text env pdf_file fs of
            (Inl e, fs1) \<Rightarrow> (Inl e, fs1, db)
          | (Inr documents, fs1) \<Rightarrow>
              (case create_vectorstore_from_texts env documents file_name db of
                 (Inl e, db1) \<Rightarrow> (Inl e, fs1, db1)
               | (Inr vs, db1) \<Rightarrow>
                   (case query_document env vs query db1 of
                      Inl e \<Rightarrow> (Inl e, fs1, db1)
                    | Inr df \<Rightarrow>
                        (case df_insert0 ''file_name'' file_name df of
                           Inl e \<Rightarrow> (Inl e, fs1, db1)
                         | Inr df' \<Rightarrow> process_loop env rest query (results @ [df']) fs1 db1)))))"

definition process_multiple_pdfs ::
  "environment \<Rightarrow> uploaded_file list \<Rightarrow> string \<Rightarrow> filesystem \<Rightarrow> database
     \<Rightarrow> (pyerr + DataFrame) \<times> filesystem \<times> database" where
  "process_multiple_pdfs env pdf_files query fs db =
     (case process_loop env pdf_files query [] fs db of
        (Inl e, fs1, db1) \<Rightarrow> (Inl e, fs1, db1)
      | (Inr results, fs1, db1) \<Rightarrow> (pd_concat results, fs1, db1))"

text \<open>
  The frame of one file after \<open>df.insert(0, 'file_name', file_name)\<close>, and the columns of
  the result table.
\<close>

definition result_frame :: "string \<Rightarrow> ExtractedInfo \<Rightarrow> DataFrame" where
  "result_frame file_name info =
     \<lparr>columns = [''file_name'', ''Invoice Items'', ''Invoice Date'', ''Business Name'', ''Total Amount''],
      rows = [[Some file_name, Some (invoice_items info), Some (invoice_date info),
               Some (business_name info), Some (total_amount info)]]\<rparr>"

definition result_columns :: "string list" where
  "result_columns = [''file_name'', ''Invoice Items'', ''Invoice Date'', ''Business Name'', ''Total Amount'']"

subsection \<open>The top level of the module\<close>

text \<open>
  Importing the module runs its statements in order. A statement binds a name in the
  module's namespace; an expression that is evaluated when the statement runs reads names,
  from the module's namespace and then from the built-ins, and a name bound in neither is a
  \<open>NameError\<close>. A function body is not run by its \<open>def\<close> (the defaults of the module's
  functions are string literals). A class body is run by its \<open>class\<close> statement: the
  value of an annotated assignment is evaluated before its annotation.
\<close>

datatype stmt =
    FromImport string "string list"
  | Import string string
  | FunctionDef string
  | Assign string "string list"
  | ClassDef string "string list" "string list"

fun first_unbound :: "string list \<Rightarrow> string list \<Rightarrow> string option" where
  "first_unbound ns [] = None"
| "first_unbound ns (x # xs) = (if x \<in> set ns then first_unbound ns xs else Some x)"

text \<open>
  \<open>FromImport m names\<close> binds the names; \<open>Import m a\<close> binds \<open>a\<close>; \<open>Assign x reads\<close>
  evaluates the right-hand side and binds \<open>x\<close>; \<open>ClassDef c bases reads\<close> evaluates the
  bases, runs the body (reading \<open>reads\<close> from the enclosing scopes, in order) and binds \<open>c\<close>.
\<close>

fun exec_stmt :: "string list \<Rightarrow> stmt \<Rightarrow> pyerr + string list" where
  "exec_stmt ns (FromImport m names) = Inr (ns @ names)"
| "exec_stmt ns (Import m a) = Inr (ns @ [a])"
| "exec_stmt ns (FunctionDef f) = Inr (ns @ [f])"
| "exec_stmt ns (Assign x reads) =
     (case first_unbound ns reads of Some n \<Rightarrow> Inl (NameError n) | None \<Rightarrow> Inr (ns @ [x]))"
| "exec_stmt ns (ClassDef c bases reads) =
     (case first_unbound ns (bases @ reads) of Some n \<Rightarrow> Inl (NameError n) | None \<Rightarrow> Inr (ns @ [c]))"

fun exec_module :: "string list \<Rightarrow> stmt list \<Rightarrow> pyerr + string list" where
  "exec_module ns [] = Inr ns"
| "exec_module ns (st # sts) =
     (case exec_stmt ns st of Inl e \<Rightarrow> Inl e | Inr ns' \<Rightarrow> exec_module ns' sts)"

text \<open>The statements of app/functions.py, in order.\<close>

definition functions_py :: "stmt list" where
  "functions_py =
     [FromImport ''langchain_community.document_loaders'' [''PyPDFLoader''],
      FromImport ''langchain.text_splitter'' [''RecursiveCharacterTextSplitter''],
      FromImport ''langchain_community.vectorstores'' [''Chroma''],
      FromImport ''langchain_core.runnables'' [''RunnablePassthrough''],
      FromImport ''langchain_core.prompts'' [''ChatPromptTemplate''],
      FromImport ''pydantic'' [''BaseModel''],
      FromImport ''langchain_ollama'' [''ChatOllama''],
      FromImport ''langchain_ollama'' [''OllamaEmbeddings''],
      Import ''streamlit'' ''st'',
      Import ''pandas'' ''pd'',
      Import ''uuid'' ''uuid'',
      Import ''re'' ''re'',
      Import ''os'' ''os'',
      Import ''tempfile'' ''tempfile'',
      FunctionDef ''clean_filename'',
      FunctionDef ''get_pdf_text'',
      FunctionDef ''split_document'',
      FunctionDef ''get_embedding_function'',
      FunctionDef ''create_vectorstore'',
      FunctionDef ''create_vectorstore_from_texts'',
      Assign ''PROMPT_TEMPLATE'' [],
      ClassDef ''ExtractedInfo'' [''BaseModel'']
        [''Field'', ''str'', ''Field'', ''str'', ''Field'', ''str'', ''Field'', ''str''],
      FunctionDef ''format_docs'',
      FunctionDef ''query_document'',
      FunctionDef ''process_multiple_pdfs'']"

text \<open>The names of the \<open>builtins\<close> module (Python 3.11).\<close>

definition py_builtins :: "string list" where
  "py_builtins =
     [''ArithmeticError'', ''AssertionError'', ''AttributeError'', ''BaseException'',
      ''BaseExceptionGroup'', ''BlockingIOError'', ''BrokenPipeError'', ''BufferError'',
      ''BytesWarning'', ''ChildProcessError'', ''ConnectionAbortedError'',
      ''ConnectionError'', ''ConnectionRefusedError'', ''ConnectionResetError'',
      ''DeprecationWarning'', ''EOFError'', ''Ellipsis'', ''EncodingWarning'',
      ''EnvironmentError'', ''Exception'', ''ExceptionGroup'', ''False'',
      ''FileExistsError'', ''FileNotFoundError'', ''FloatingPointError'', ''FutureWarning'',
      ''GeneratorExit'', ''IOError'', ''ImportError'', ''ImportWarning'',
      ''IndentationError'', ''IndexError'', ''InterruptedError'', ''IsADirectoryError'',
      ''KeyError'', ''KeyboardInterrupt'', ''LookupError'', ''MemoryError'',
      ''ModuleNotFoundError'', ''NameError'', ''None'', ''NotADirectoryError'',
      ''NotImplemented'', ''NotImplementedError'', ''OSError'', ''OverflowError'',
      ''PendingDeprecationWarning'', ''PermissionError'', ''ProcessLookupError'',
      ''RecursionError'', ''ReferenceError'', ''ResourceWarning'', ''RuntimeError'',
      ''RuntimeWarning'', ''StopAsyncIteration'', ''StopIteration'', ''SyntaxError'',
      ''SyntaxWarning'', ''SystemError'', ''SystemExit'', ''TabError'', ''TimeoutError'',
      ''True'', ''TypeError'', ''UnboundLocalError'', ''UnicodeDecodeError'',
      ''UnicodeEncodeError'', ''UnicodeError'', ''UnicodeTranslateError'',
      ''UnicodeWarning'', ''UserWarning'', ''ValueError'', ''Warning'',
      ''ZeroDivisionError'', ''__build_class__'', ''__debug__'', ''__doc__'',
      ''__import__'', ''__loader__'', ''__name__'', ''__package__'', ''__spec__'', ''abs'',
      ''aiter'', ''all'', ''anext'', ''any'', ''ascii'', ''bin'', ''bool'', ''breakpoint'',
      ''bytearray'', ''bytes'', ''callable'', ''chr'', ''classmethod'', ''compile'',
      ''complex'', ''copyright'', ''credits'', ''delattr'', ''dict'', ''dir'', ''divmod'',
      ''enumerate'', ''eval'', ''exec'', ''exit'', ''filter'', ''float'', ''format'',
      ''frozenset'', ''getattr'', ''globals'', ''hasattr'', ''hash'', ''help'', ''hex'',
      ''id'', ''input'', ''int'', ''isinstance'', ''issubclass'', ''iter'', ''len'',
      ''license'', ''list'', ''locals'', ''map'', ''max'', ''memoryview'', ''min'',
      ''next'', ''object'', ''oct'', ''open'', ''ord'', ''pow'', ''print'', ''property'',
      ''quit'', ''range'', ''repr'', ''reversed'', ''round'', ''set'', ''setattr'',
      ''slice'', ''sorted'', ''staticmethod'', ''str'', ''sum'', ''super'', ''tuple'',
      ''type'', ''vars'', ''zip'']"

subsection \<open>A test double of the external services\<close>

text \<open>
  Concrete oracles, for evaluating the functions at concrete inputs. The parser fails on the
  bytes \<open>corrupt\<close> and otherwise returns one page holding the bytes as text. The ids of the
  texts \<open>a\<close>, \<open>b\<close> and \<open>c\<close> are their real \<open>uuid5\<close> values, and a set holding the
  ids of \<open>a\<close> and \<open>b\<close>, added in this order, is iterated in the order CPython 3.11
  iterates it under \<open>PYTHONHASHSEED=0\<close>: the id of \<open>b\<close> first. The constructor of the
  embedder is that of \<open>langchain_ollama\<close>: it has no field \<open>show_progress\<close> and rejects a
  keyword that is not a field.
\<close>

definition stub_uuid5 :: "string \<Rightarrow> string" where
  "stub_uuid5 t =
     (if t = ''a'' then ''4f3f2898-69e3-5a0d-820a-c4e87987dbce''
      else if t = ''b'' then ''3f10dbe8-4cbd-5e31-9b1f-af0cb9dda9cf''
      else if t = ''c'' then ''b72f1bcd-e229-57e2-bb24-d01077785f16''
      else ''uuid5:'' @ t)"

definition stub_env :: environment where
  "stub_env =
     \<lparr>NamedTemporaryFile = (\<lambda>fs. Inr ''/tmp/tmp0''),
      temp_write = (\<lambda>p b. None),
      PyPDFLoader_load =
        (\<lambda>p b. if b = ''corrupt'' then Inl (External ''ParseFailure'')
               else Inr [\<lparr>page_content = b, metadata = [(''source'', p), (''page'', ''0'')]\<rparr>]),
      uuid5_dns = stub_uuid5,
      set_iteration =
        (\<lambda>ids. if ids = [stub_uuid5 ''a'', stub_uuid5 ''b'']
               then [stub_uuid5 ''b'', stub_uuid5 ''a''] else ids),
      valid_collection_name =
        (\<lambda>n. CHR ''('' \<notin> set n \<and> CHR '')'' \<notin> set n \<and> CHR '' '' \<notin> set n),
      OllamaEmbeddings =
        (\<lambda>kwargs. if ''show_progress'' \<in> set (map fst kwargs)
                  then Some (External ''ValidationError'') else None),
      embed_documents = (\<lambda>texts. Inr (map (\<lambda>t. [int (length t)]) texts)),
      similarity_search =
        (\<lambda>coll q. Inr (List.map_filter (\<lambda>k. map_option entry_document (coll k))
                         [stub_uuid5 ''a'', stub_uuid5 ''b''])),
      structured_llm =
        (\<lambda>prompt. Inr \<lparr>invoice_items = ''unknown'', invoice_date = ''unknown'',
                        business_name = ''unknown'', total_amount = ''$42.00''\<rparr>)\<rparr>"

section \<open>Properties\<close>

lemma stub_env_sel:
  "NamedTemporaryFile stub_env = (\<lambda>fs. Inr ''/tmp/tmp0'')"
  "temp_write stub_env = (\<lambda>p b. None)"
  "PyPDFLoader_load stub_env =
     (\<lambda>p b. if b = ''corrupt'' then Inl (External ''ParseFailure'')
            else Inr [\<lparr>page_content = b, metadata = [(''source'', p), (''page'', ''0'')]\<rparr>])"
  "uuid5_dns stub_env = stub_uuid5"
  "set_iteration stub_env =
     (\<lambda>ids. if ids = [stub_uuid5 ''a'', stub_uuid5 ''b'']
            then [stub_uuid5 ''b'', stub_uuid5 ''a''] else ids)"
  "valid_collection_name stub_env =
     (\<lambda>n. CHR ''('' \<notin> set n \<and> CHR '')'' \<notin> set n \<and> CHR '' '' \<notin> set n)"
  "OllamaEmbeddings stub_env =
     (\<lambda>kwargs. if ''show_progress'' \<in> set (map fst kwargs)
               then Some (External ''ValidationError'') else None)"
  "embed_documents stub_env = (\<lambda>texts. Inr (map (\<lambda>t. [int (length t)]) texts))"
  "similarity_search stub_env =
     (\<lambda>coll q. Inr (List.map_filter (\<lambda>k. map_option entry_document (coll k))
                      [stub_uuid5 ''a'', stub_uuid5 ''b'']))"
  "structured_llm stub_env =
     (\<lambda>prompt. Inr \<lparr>invoice_items = ''unknown'', invoice_date = ''unknown'',
                     business_name = ''unknown'', total_amount = ''$42.00''\<rparr>)"
  by (simp_all add: stub_env_def)

subsection \<open>The temporary file of get_pdf_text\<close>

text \<open>
  Claim C9. Once the temporary file has been created and written, the parse call is
  reached, and whatever it does (return the documents or raise), \<open>get_pdf_text\<close> ends with
  the outcome of the parser and with the temporary file deleted.
\<close>

theorem get_pdf_text_deletes_temp_file:
  assumes "read uploaded = Inr input_file"
    and "NamedTemporaryFile env fs = Inr temp_file"
    and "temp_write env temp_file input_file = None"
  shows "get_pdf_text env uploaded fs
           = (PyPDFLoader_load env temp_file input_file, fs(temp_file := None))
         \<and> temp_file \<notin> dom (snd (get_pdf_text env uploaded fs))"
  using assms by (simp add: get_pdf_text_def get_pdf_text_try_def os_unlink_def Let_def)

theorem get_pdf_text_deletes_temp_file_witness:
  "get_pdf_text stub_env \<lparr>name = ''Invoice.pdf'', read = Inr ''corrupt''\<rparr> Map.empty
     = (Inl (External ''ParseFailure''), Map.empty)
   \<and> get_pdf_text stub_env \<lparr>name = ''Invoice.pdf'', read = Inr ''a''\<rparr> Map.empty
     = (Inr [\<lparr>page_content = ''a'', metadata = [(''source'', ''/tmp/tmp0''), (''page'', ''0'')]\<rparr>],
        Map.empty)
   \<and> ''/tmp/tmp0'' \<notin> dom (snd (get_pdf_text stub_env
         \<lparr>name = ''Invoice.pdf'', read = Inr ''corrupt''\<rparr> Map.empty))"
  using
    get_pdf_text_deletes_temp_file [of "\<lparr>name = ''Invoice.pdf'', read = Inr ''corrupt''\<rparr>"
      "''corrupt''" stub_env Map.empty "''/tmp/tmp0''"]
    get_pdf_text_deletes_temp_file [of "\<lparr>name = ''Invoice.pdf'', read = Inr ''a''\<rparr>"
      "''a''" stub_env Map.empty "''/tmp/tmp0''"]
  by (simp add: stub_env_def)

text \<open>
  Claim C10. When \<open>read()\<close> raises, or the creation of the temporary file raises, the
  variable \<open>temp_file\<close> is unbound when \<open>finally\<close> runs: the caller gets an
  \<open>UnboundLocalError\<close> for \<open>temp_file\<close> whatever the original error \<open>e\<close> was, and the file
  system is as it was (nothing is unlinked).
\<close>

theorem get_pdf_text_unbound_temp_file:
  assumes "read uploaded = Inl e
           \<or> (\<exists>input_file. read uploaded = Inr input_file \<and> NamedTemporaryFile env fs = Inl e)"
  shows "get_pdf_text env uploaded fs = (Inl (UnboundLocalError ''temp_file''), fs)"
  using assms by (auto simp add: get_pdf_text_def get_pdf_text_try_def)

theorem get_pdf_text_unbound_temp_file_witness:
  "get_pdf_text stub_env \<lparr>name = ''Invoice.pdf'', read = Inl (External ''read'')\<rparr>
       [''/tmp/old'' \<mapsto> ''x'']
     = (Inl (UnboundLocalError ''temp_file''), [''/tmp/old'' \<mapsto> ''x''])
   \<and> External ''read'' \<noteq> UnboundLocalError ''temp_file''"
  using
    get_pdf_text_unbound_temp_file [of "\<lparr>name = ''Invoice.pdf'', read = Inl (External ''read'')\<rparr>"
      "External ''read''" stub_env "[''/tmp/old'' \<mapsto> ''x'']"]
  by simp

subsection \<open>The import of the module\<close>

text \<open>
  Claim C2. Importing the module stops in the body of the class \<open>ExtractedInfo\<close> with a
  \<open>NameError\<close> for \<open>Field\<close>: the name is bound by no statement before the class and is
  no built-in. The four-field schema is never created and no function defined after the
  class is bound.
\<close>

theorem module_import_raises_NameError:
  "exec_module py_builtins functions_py = Inl (NameError ''Field'')"
  by (simp add: functions_py_def py_builtins_def)

subsection \<open>Deduplication and chunk identity\<close>

lemma dedup_loop_append:
  "dedup_loop (ps @ qs) s a = (case dedup_loop ps s a of (s', a') \<Rightarrow> dedup_loop qs s' a')"
  by (induction ps s a rule: dedup_loop.induct) auto

lemma first_positions_snoc:
  "first_positions h (xs @ [x]) =
     first_positions h xs @ (if h x \<in> h ` set xs then [] else [length xs])"
proof -
  have a: "filter (\<lambda>i. \<forall>j<i. h ((xs @ [x]) ! j) \<noteq> h ((xs @ [x]) ! i)) [0..<length xs]
        = filter (\<lambda>i. \<forall>j<i. h (xs ! j) \<noteq> h (xs ! i)) [0..<length xs]"
    by (rule filter_cong) (auto simp: nth_append)
  have b: "(\<forall>j<length xs. h ((xs @ [x]) ! j) \<noteq> h x) \<longleftrightarrow> h x \<notin> h ` set xs"
    by (auto simp: nth_append in_set_conv_nth) (metis imageI nth_mem)
  show ?thesis
    using a b by (simp add: first_positions_def)
qed

lemma map_nth_first_positions_snoc:
  "map ((!) (xs @ [x])) (first_positions h xs) = map ((!) xs) (first_positions h xs)"
  by (rule map_cong) (auto simp: first_positions_def nth_append)

lemma dedup_loop_first_positions:
  "dedup_loop (zip xs (map h xs)) [] []
     = (map h (map ((!) xs) (first_positions h xs)), map ((!) xs) (first_positions h xs))
   \<and> set (map h (map ((!) xs) (first_positions h xs))) = h ` set xs"
proof (induction xs rule: rev_induct)
  case Nil
  show ?case by (simp add: first_positions_def)
next
  case (snoc x xs)
  have z: "zip (xs @ [x]) (map h (xs @ [x])) = zip xs (map h xs) @ [(x, h x)]"
    by simp
  show ?case
    unfolding z dedup_loop_append
    using snoc
    by (auto simp: first_positions_snoc map_nth_first_positions_snoc simp del: zip_append)
qed

lemma distinct_first_positions:
  "distinct (map h (map ((!) xs) (first_positions h xs)))"
proof -
  have "distinct (first_positions h xs)" by (simp add: first_positions_def)
  moreover have "inj_on (\<lambda>i. h (xs ! i)) (set (first_positions h xs))"
  proof (rule inj_onI)
    fix i j assume i: "i \<in> set (first_positions h xs)" and j: "j \<in> set (first_positions h xs)"
      and e: "h (xs ! i) = h (xs ! j)"
    show "i = j"
    proof (rule ccontr)
      assume "i \<noteq> j"
      then consider "i < j" | "j < i" by linarith
      then show False
        using i j e by cases (auto simp: first_positions_def)
    qed
  qed
  ultimately show ?thesis by (simp add: distinct_map comp_def)
qed


lemma dedup_loop_result:
  "dedup_loop (zip chunks (chunk_ids env chunks)) [] [] = (unique_ids env chunks, unique_chunks env chunks)"
  by (simp add: unique_ids_def unique_chunks_def)


lemma unique_ids_eq: "unique_ids env chunks = chunk_ids env (unique_chunks env chunks)"
  using dedup_loop_first_positions [of chunks "\<lambda>doc. uuid5_dns env (page_content doc)"]
  by (simp add: unique_ids_def unique_chunks_def chunk_ids_def)

lemma set_unique_ids: "set (unique_ids env chunks) = set (chunk_ids env chunks)"
  using dedup_loop_first_positions [of chunks "\<lambda>doc. uuid5_dns env (page_content doc)"]
  by (simp add: unique_ids_def chunk_ids_def)

lemma distinct_unique_ids: "distinct (unique_ids env chunks)"
  using distinct_first_positions [of "\<lambda>doc. uuid5_dns env (page_content doc)" chunks]
    dedup_loop_first_positions [of chunks "\<lambda>doc. uuid5_dns env (page_content doc)"]
  by (simp add: unique_ids_def chunk_ids_def)

lemma length_unique_ids: "length (unique_ids env chunks) = length (unique_chunks env chunks)"
  by (simp add: unique_ids_eq chunk_ids_def)



lemma create_vectorstore_call:
  "create_vectorstore env chunks embedding_function file_name vector_store_path db
     = Chroma_from_documents env (unique_chunks env chunks) (clean_filename file_name)
         embedding_function (set_iteration env (unique_ids env chunks)) vector_store_path db"
  by (simp add: create_vectorstore_def dedup_loop_result)



text \<open>
  Claim C6. The id of a chunk is a function of its text alone: two chunks with the same
  text, at any positions of any two chunk lists (any document, any metadata), get the same
  id; and when the two texts do not collide under \<open>uuid5\<close>, the ids are equal exactly when
  the texts are.
\<close>

theorem chunk_identity_content_only:
  assumes "i < length chunks1" and "j < length chunks2"
  shows "(page_content (chunks1 ! i) = page_content (chunks2 ! j)
            \<longrightarrow> chunk_ids env chunks1 ! i = chunk_ids env chunks2 ! j)
         \<and> (inj_on (uuid5_dns env) {page_content (chunks1 ! i), page_content (chunks2 ! j)}
            \<longrightarrow> (chunk_ids env chunks1 ! i = chunk_ids env chunks2 ! j
                  \<longleftrightarrow> page_content (chunks1 ! i) = page_content (chunks2 ! j)))"
  using assms by (auto simp: chunk_ids_def dest: inj_onD)

theorem chunk_identity_content_only_witness:
  "chunk_ids stub_env [\<lparr>page_content = ''a'', metadata = [(''source'', ''x.pdf'')]\<rparr>] ! 0
     = chunk_ids stub_env [\<lparr>page_content = ''b'', metadata = [(''source'', ''y.pdf'')]\<rparr>,
                           \<lparr>page_content = ''a'', metadata = [(''source'', ''y.pdf'')]\<rparr>] ! 1
   \<and> chunk_ids stub_env [\<lparr>page_content = ''a'', metadata = [(''source'', ''x.pdf'')]\<rparr>] ! 0
     \<noteq> chunk_ids stub_env [\<lparr>page_content = ''b'', metadata = [(''source'', ''y.pdf'')]\<rparr>,
                           \<lparr>page_content = ''a'', metadata = [(''source'', ''y.pdf'')]\<rparr>] ! 0"
  using
    chunk_identity_content_only [of 0 "[\<lparr>page_content = ''a'', metadata = [(''source'', ''x.pdf'')]\<rparr>]" 1
      "[\<lparr>page_content = ''b'', metadata = [(''source'', ''y.pdf'')]\<rparr>,
        \<lparr>page_content = ''a'', metadata = [(''source'', ''y.pdf'')]\<rparr>]" stub_env]
    chunk_identity_content_only [of 0 "[\<lparr>page_content = ''a'', metadata = [(''source'', ''x.pdf'')]\<rparr>]" 0
      "[\<lparr>page_content = ''b'', metadata = [(''source'', ''y.pdf'')]\<rparr>,
        \<lparr>page_content = ''a'', metadata = [(''source'', ''y.pdf'')]\<rparr>]" stub_env]
  by (simp add: stub_env_def stub_uuid5_def)

subsection \<open>The ids handed to the store\<close>

text \<open>
  Whatever the order in which a set is iterated, when that order depends on the elements of
  the set only, two chunks with different ids are handed to the store with misaligned ids
  in one of their two input orders.
\<close>

lemma set_iteration_misaligns_one_order:
  assumes "set_iteration env [uuid5_dns env a, uuid5_dns env b]
             = set_iteration env [uuid5_dns env b, uuid5_dns env a]"
    and "uuid5_dns env a \<noteq> uuid5_dns env b"
  shows "set_iteration env (unique_ids env [\<lparr>page_content = a, metadata = ma\<rparr>,
                                             \<lparr>page_content = b, metadata = mb\<rparr>])
           \<noteq> chunk_ids env (unique_chunks env [\<lparr>page_content = a, metadata = ma\<rparr>,
                                                 \<lparr>page_content = b, metadata = mb\<rparr>])
         \<or> set_iteration env (unique_ids env [\<lparr>page_content = b, metadata = mb\<rparr>,
                                               \<lparr>page_content = a, metadata = ma\<rparr>])
           \<noteq> chunk_ids env (unique_chunks env [\<lparr>page_content = b, metadata = mb\<rparr>,
                                                 \<lparr>page_content = a, metadata = ma\<rparr>])"
  using assms by (auto simp: unique_ids_def unique_chunks_def chunk_ids_def)

text \<open>
  Claim C1, evaluated: the chunks \<open>a\<close> and \<open>b\<close>, in this order. The set of their two
  ids is iterated with the id of \<open>b\<close> first, so the store receives the ids in the order
  (id of \<open>b\<close>, id of \<open>a\<close>) for the chunks (\<open>a\<close>, \<open>b\<close>): the chunk \<open>b\<close> is stored
  under the id of \<open>a\<close> and the chunk \<open>a\<close> under the id of \<open>b\<close>.
\<close>

theorem create_vectorstore_misaligned_ids:
  "fst (create_vectorstore stub_env
          [\<lparr>page_content = ''a'', metadata = []\<rparr>, \<lparr>page_content = ''b'', metadata = []\<rparr>]
          (embed_documents stub_env) ''f.pdf'' ''db'' Map.empty)
     = Inr (''db'', ''f.pdf'')
   \<and> stored_text
         (snd (create_vectorstore stub_env
                 [\<lparr>page_content = ''a'', metadata = []\<rparr>, \<lparr>page_content = ''b'', metadata = []\<rparr>]
                 (embed_documents stub_env) ''f.pdf'' ''db'' Map.empty))
         (''db'', ''f.pdf'') (uuid5_dns stub_env ''a'')
       = Some ''b''
   \<and> stored_text
         (snd (create_vectorstore stub_env
                 [\<lparr>page_content = ''a'', metadata = []\<rparr>, \<lparr>page_content = ''b'', metadata = []\<rparr>]
                 (embed_documents stub_env) ''f.pdf'' ''db'' Map.empty))
         (''db'', ''f.pdf'') (uuid5_dns stub_env ''b'')
       = Some ''a''
   \<and> uuid5_dns stub_env ''a'' \<noteq> uuid5_dns stub_env ''b''"
  by code_simp

subsection \<open>Two files with the same cleaned name\<close>

lemma map_upds_nth:
  "length xs = length ys \<Longrightarrow> distinct xs \<Longrightarrow> i < length xs
     \<Longrightarrow> (m(xs [\<mapsto>] ys)) (xs ! i) = Some (ys ! i)"
proof (induction xs ys arbitrary: m i rule: list_induct2)
  case Nil
  then show ?case by simp
next
  case (Cons x xs y ys)
  show ?case
  proof (cases i)
    case 0
    then show ?thesis using Cons.prems by simp
  next
    case (Suc k)
    then show ?thesis using Cons by auto
  qed
qed

lemma unique_chunks_nonempty: "chunks \<noteq> [] \<Longrightarrow> unique_chunks env chunks \<noteq> []"
proof -
  assume "chunks \<noteq> []"
  then have "set (unique_ids env chunks) \<noteq> {}"
    by (simp add: set_unique_ids chunk_ids_def)
  then have "length (unique_ids env chunks) \<noteq> 0" by auto
  then show ?thesis by (simp add: length_unique_ids)
qed

text \<open>
  Claim C4, as the code has it. When the collection named after the first file exists and
  the second file cleans to the same name, \<open>create_vectorstore\<close> for the second file (at
  least one chunk, a valid name, a working embedder, a set iteration that lists each id
  once) raises no error for the clash. It returns the handle of the existing collection and
  merges into it: the \<open>i\<close>-th deduplicated chunk of the second file is written, with its
  embedding, under the \<open>i\<close>-th id of \<open>list(unique_ids)\<close>; the keys of the collection are the
  old ones and the ids of the second file's chunks; every other entry is as it was.
\<close>

theorem create_vectorstore_merges_same_name:
  assumes same: "clean_filename second_name = clean_filename first_name"
    and existing: "db (vector_store_path, clean_filename first_name) = Some coll"
    and valid: "valid_collection_name env (clean_filename second_name)"
    and nonempty: "chunks \<noteq> []"
    and emb: "embedding_function (map page_content (unique_chunks env chunks)) = Inr embeddings"
    and emb_len: "length embeddings = length (unique_chunks env chunks)"
    and perm_set: "set (set_iteration env (unique_ids env chunks)) = set (unique_ids env chunks)"
    and perm_len: "length (set_iteration env (unique_ids env chunks)) = length (unique_ids env chunks)"
  shows "\<exists>coll'. create_vectorstore env chunks embedding_function second_name vector_store_path db
             = (Inr (vector_store_path, clean_filename first_name),
                db((vector_store_path, clean_filename first_name) \<mapsto> coll'))
           \<and> (\<forall>i<length (unique_chunks env chunks).
                 coll' (set_iteration env (unique_ids env chunks) ! i)
                   = Some \<lparr>embedding = embeddings ! i,
                           entry_document = unique_chunks env chunks ! i\<rparr>)
           \<and> dom coll' = dom coll \<union> set (chunk_ids env chunks)
           \<and> (\<forall>k. k \<notin> set (chunk_ids env chunks) \<longrightarrow> coll' k = coll k)"
proof -
  let ?ids = "set_iteration env (unique_ids env chunks)"
  let ?entries = "map (\<lambda>(v, doc). \<lparr>embedding = v, entry_document = doc\<rparr>)
                    (zip embeddings (unique_chunks env chunks))"
  have "card (set ?ids) = length ?ids"
    using distinct_unique_ids [of env chunks] perm_set perm_len by (simp add: distinct_card)
  then have dist: "distinct ?ids" by (rule card_distinct)
  have len: "length ?ids = length (unique_chunks env chunks)"
    using perm_len by (simp add: length_unique_ids)
  have len': "length ?ids = length ?entries"
    using len emb_len by simp
  have ne: "unique_chunks env chunks \<noteq> []"
    using nonempty by (rule unique_chunks_nonempty)
  have ne': "?ids \<noteq> []"
    using ne len by auto
  have call: "create_vectorstore env chunks embedding_function second_name vector_store_path db
      = (Inr (vector_store_path, clean_filename first_name),
         db((vector_store_path, clean_filename first_name) \<mapsto> coll(?ids [\<mapsto>] ?entries)))"
    using same existing valid emb emb_len dist len ne ne'
    by (simp add: create_vectorstore_call Chroma_from_documents_def Let_def)
  have pos: "\<forall>i<length (unique_chunks env chunks).
               (coll(?ids [\<mapsto>] ?entries)) (?ids ! i)
                 = Some \<lparr>embedding = embeddings ! i, entry_document = unique_chunks env chunks ! i\<rparr>"
  proof (intro allI impI)
    fix i assume i: "i < length (unique_chunks env chunks)"
    then have "(coll(?ids [\<mapsto>] ?entries)) (?ids ! i) = Some (?entries ! i)"
      using map_upds_nth [OF len' dist] len by simp
    then show "(coll(?ids [\<mapsto>] ?entries)) (?ids ! i)
                 = Some \<lparr>embedding = embeddings ! i, entry_document = unique_chunks env chunks ! i\<rparr>"
      using i emb_len by simp
  qed
  have dom: "dom (coll(?ids [\<mapsto>] ?entries)) = dom coll \<union> set (chunk_ids env chunks)"
    using len' perm_set by (auto simp: dom_map_upds set_unique_ids)
  have keep: "\<forall>k. k \<notin> set (chunk_ids env chunks) \<longrightarrow> (coll(?ids [\<mapsto>] ?entries)) k = coll k"
    using perm_set by (simp add: set_unique_ids)
  from call pos dom keep show ?thesis by blast
qed

theorem create_vectorstore_merges_same_name_witness:
  "fst (create_vectorstore stub_env
          [\<lparr>page_content = ''a'', metadata = []\<rparr>, \<lparr>page_content = ''b'', metadata = []\<rparr>]
          (embed_documents stub_env) ''Invoice (2).pdf'' ''db''
          [(''db'', ''Invoice.pdf'') \<mapsto>
             [stub_uuid5 ''c'' \<mapsto>
                \<lparr>embedding = [1], entry_document = \<lparr>page_content = ''c'', metadata = []\<rparr>\<rparr>]])
     = Inr (''db'', ''Invoice.pdf'')
   \<and> stored_text
         (snd (create_vectorstore stub_env
                 [\<lparr>page_content = ''a'', metadata = []\<rparr>, \<lparr>page_content = ''b'', metadata = []\<rparr>]
                 (embed_documents stub_env) ''Invoice (2).pdf'' ''db''
                 [(''db'', ''Invoice.pdf'') \<mapsto>
                    [stub_uuid5 ''c'' \<mapsto>
                       \<lparr>embedding = [1],
                          entry_document = \<lparr>page_content = ''c'', metadata = []\<rparr>\<rparr>]]))
         (''db'', ''Invoice.pdf'') (stub_uuid5 ''b'')
       = Some ''a''"
proof -
  let ?coll = "[stub_uuid5 ''c'' \<mapsto>
                 \<lparr>embedding = [1], entry_document = \<lparr>page_content = ''c'', metadata = []\<rparr>\<rparr>]"
  let ?db = "[(''db'', ''Invoice.pdf'') \<mapsto> ?coll]"
  let ?chunks = "[\<lparr>page_content = ''a'', metadata = []\<rparr>, \<lparr>page_content = ''b'', metadata = []\<rparr>]"
  have n1: "clean_filename ''Invoice (1).pdf'' = ''Invoice.pdf''"
    by (simp add: py_isspace_def py_isdigit_def)
  have n2: "clean_filename ''Invoice (2).pdf'' = ''Invoice.pdf''"
    by (simp add: py_isspace_def py_isdigit_def)
  have same: "clean_filename ''Invoice (2).pdf'' = clean_filename ''Invoice (1).pdf''"
    by (simp only: n1 n2)
  have existing: "?db (''db'', clean_filename ''Invoice (1).pdf'') = Some ?coll"
    unfolding n1 by simp
  have valid: "valid_collection_name stub_env (clean_filename ''Invoice (2).pdf'')"
    unfolding n2 by (simp add: stub_env_sel)
  have nonempty: "?chunks \<noteq> []" by simp
  have uc: "unique_chunks stub_env ?chunks = ?chunks"
    by (simp add: unique_chunks_def chunk_ids_def stub_env_sel stub_uuid5_def)
  have ui: "unique_ids stub_env ?chunks = [stub_uuid5 ''a'', stub_uuid5 ''b'']"
    by (simp add: unique_ids_def chunk_ids_def stub_env_sel stub_uuid5_def)
  have emb: "embed_documents stub_env (map page_content (unique_chunks stub_env ?chunks))
               = Inr [[1], [1]]"
    by (simp add: uc stub_env_sel)
  have emb_len: "length [[1::int], [1]] = length (unique_chunks stub_env ?chunks)"
    by (simp add: uc)
  have it: "set_iteration stub_env [stub_uuid5 ''a'', stub_uuid5 ''b'']
              = [stub_uuid5 ''b'', stub_uuid5 ''a'']"
    by (simp add: stub_env_sel)
  have perm_set: "set (set_iteration stub_env (unique_ids stub_env ?chunks))
                    = set (unique_ids stub_env ?chunks)"
    unfolding ui it by auto
  have perm_len: "length (set_iteration stub_env (unique_ids stub_env ?chunks))
                    = length (unique_ids stub_env ?chunks)"
    unfolding ui it by simp
  from create_vectorstore_merges_same_name
         [where db = "?db" and coll = "?coll" and vector_store_path = "''db''"
            and first_name = "''Invoice (1).pdf''" and second_name = "''Invoice (2).pdf''"
            and env = stub_env and embedding_function = "embed_documents stub_env"
            and chunks = "?chunks" and embeddings = "[[1], [1]]",
          OF same existing valid nonempty emb emb_len perm_set perm_len]
  obtain coll' where
    r: "create_vectorstore stub_env ?chunks (embed_documents stub_env) ''Invoice (2).pdf'' ''db'' ?db
          = (Inr (''db'', clean_filename ''Invoice (1).pdf''),
             ?db((''db'', clean_filename ''Invoice (1).pdf'') \<mapsto> coll'))"
    and p: "\<forall>i<length (unique_chunks stub_env ?chunks).
              coll' (set_iteration stub_env (unique_ids stub_env ?chunks) ! i)
                = Some \<lparr>embedding = [[1], [1]] ! i,
                        entry_document = unique_chunks stub_env ?chunks ! i\<rparr>"
    by blast
  from p have "coll' (set_iteration stub_env (unique_ids stub_env ?chunks) ! 0)
                = Some \<lparr>embedding = [[1], [1]] ! 0,
                        entry_document = unique_chunks stub_env ?chunks ! 0\<rparr>"
    by (simp add: uc)
  then have p0: "coll' (stub_uuid5 ''b'')
                   = Some \<lparr>embedding = [1], entry_document = \<lparr>page_content = ''a'', metadata = []\<rparr>\<rparr>"
    unfolding ui it uc by simp
  from r [unfolded n1] p0 show ?thesis
    by (simp add: stored_text_def)
qed

text \<open>
  Claim C4, as stated, fails: \<open>Invoice (1).pdf\<close> and \<open>Invoice (2).pdf\<close> both clean to
  \<open>Invoice.pdf\<close>, their contents differ, and the second \<open>create_vectorstore\<close> returns
  the collection of the first with both chunks in it.
\<close>

theorem create_vectorstore_no_name_collision:
  "clean_filename ''Invoice (1).pdf'' = ''Invoice.pdf''
   \<and> clean_filename ''Invoice (2).pdf'' = ''Invoice.pdf''
   \<and> fst (create_vectorstore stub_env [\<lparr>page_content = ''a'', metadata = []\<rparr>]
            (embed_documents stub_env) ''Invoice (1).pdf'' ''db'' Map.empty)
       = Inr (''db'', ''Invoice.pdf'')
   \<and> fst (create_vectorstore stub_env [\<lparr>page_content = ''b'', metadata = []\<rparr>]
            (embed_documents stub_env) ''Invoice (2).pdf'' ''db''
            (snd (create_vectorstore stub_env [\<lparr>page_content = ''a'', metadata = []\<rparr>]
                    (embed_documents stub_env) ''Invoice (1).pdf'' ''db'' Map.empty)))
       = Inr (''db'', ''Invoice.pdf'')
   \<and> stored_text
         (snd (create_vectorstore stub_env [\<lparr>page_content = ''b'', metadata = []\<rparr>]
                 (embed_documents stub_env) ''Invoice (2).pdf'' ''db''
                 (snd (create_vectorstore stub_env [\<lparr>page_content = ''a'', metadata = []\<rparr>]
                         (embed_documents stub_env) ''Invoice (1).pdf'' ''db'' Map.empty))))
         (''db'', ''Invoice.pdf'') (uuid5_dns stub_env ''a'')
       = Some ''a''
   \<and> stored_text
         (snd (create_vectorstore stub_env [\<lparr>page_content = ''b'', metadata = []\<rparr>]
                 (embed_documents stub_env) ''Invoice (2).pdf'' ''db''
                 (snd (create_vectorstore stub_env [\<lparr>page_content = ''a'', metadata = []\<rparr>]
                         (embed_documents stub_env) ''Invoice (1).pdf'' ''db'' Map.empty))))
         (''db'', ''Invoice.pdf'') (uuid5_dns stub_env ''b'')
       = Some ''b''"
  by code_simp

subsection \<open>The batch run\<close>

lemma query_document_frame:
  assumes "query_document env vs query db = Inr df"
  shows "\<exists>info. df_insert0 ''file_name'' file_name df = Inr (result_frame file_name info)"
  using assms
  by (auto simp: query_document_def df_insert0_def result_frame_def split: sum.splits option.splits)

lemma process_loop_append:
  "process_loop env (pre @ post) query results fs db =
     (case process_loop env pre query results fs db of
        (Inl e, fs1, db1) \<Rightarrow> (Inl e, fs1, db1)
      | (Inr results1, fs1, db1) \<Rightarrow> process_loop env post query results1 fs1 db1)"
proof (induction pre arbitrary: results fs db)
  case Nil
  show ?case by simp
next
  case (Cons f pre)
  show ?case
    by (simp add: Cons.IH Let_def split: prod.splits sum.splits)
qed

lemma process_loop_frames:
  assumes "process_loop env pdf_files query results fs db = (Inr out, fs', db')"
  shows "\<exists>infos. length infos = length pdf_files
           \<and> out = results @ map (\<lambda>(f, info). result_frame (name f) info) (zip pdf_files infos)"
  using assms
proof (induction pdf_files arbitrary: results fs db)
  case Nil
  then show ?case by simp
next
  case (Cons f rest)
  from Cons.prems obtain documents fs1 vs db1 df df' where
    q: "query_document env vs query db1 = Inr df"
    and i: "df_insert0 ''file_name'' (name f) df = Inr df'"
    and r: "process_loop env rest query (results @ [df']) fs1 db1 = (Inr out, fs', db')"
    by (auto simp: Let_def split: prod.splits sum.splits)
  from query_document_frame [OF q, of "name f"] i obtain info where
    d: "df' = result_frame (name f) info" by auto
  from Cons.IH [OF r] obtain infos where
    l: "length infos = length rest"
    and o: "out = (results @ [df']) @ map (\<lambda>(f, info). result_frame (name f) info) (zip rest infos)"
    by blast
  show ?case
    by (rule exI [of _ "info # infos"]) (simp add: l o d)
qed


lemma first_occurrences_seen: "set xs \<subseteq> set seen \<Longrightarrow> first_occurrences seen xs = []"
  by (induction xs) auto

lemma first_occurrences_fresh:
  "distinct c \<Longrightarrow> set c \<inter> set seen = {}
     \<Longrightarrow> first_occurrences seen (c @ rest) = c @ first_occurrences (seen @ c) rest"
  by (induction c arbitrary: seen) auto

lemma columns_result_frame: "columns (result_frame n info) = result_columns"
  by (simp add: result_frame_def result_columns_def)

lemma reindex_result_frame:
  "reindex result_columns (result_frame n info) = rows (result_frame n info)"
  by (simp add: reindex_def result_frame_def result_columns_def)

lemma pd_concat_result_frames:
  assumes "frames \<noteq> []" and "\<forall>df \<in> set frames. \<exists>n info. df = result_frame n info"
  shows "pd_concat frames = Inr \<lparr>columns = result_columns, rows = concat (map rows frames)\<rparr>"
proof -
  from assms(1) obtain df rest where f: "frames = df # rest" by (cases frames) auto
  have cols: "\<forall>df \<in> set frames. columns df = result_columns"
    using assms(2) by (auto simp: columns_result_frame)
  have sub: "set (concat (map columns rest)) \<subseteq> set result_columns"
    using cols f by auto
  have "first_occurrences [] (concat (map columns frames))
          = result_columns @ first_occurrences ([] @ result_columns) (concat (map columns rest))"
    using cols f first_occurrences_fresh [of result_columns "[]" "concat (map columns rest)"]
    by (simp add: result_columns_def)
  then have fo: "first_occurrences [] (concat (map columns frames)) = result_columns"
    using first_occurrences_seen [OF sub] by simp
  have m: "map (reindex result_columns) frames = map rows frames"
    using assms(2) by (intro map_cong [OF refl]) (auto simp: reindex_result_frame)
  show ?thesis
    using assms(1) by (simp add: pd_concat_def Let_def fo m)
qed

text \<open>
  The table that the loop and \<open>pd.concat\<close> build: if a run returns a table, the table has
  the five columns \<open>file_name\<close>, \<open>Invoice Items\<close>, \<open>Invoice Date\<close>, \<open>Business Name\<close>,
  \<open>Total Amount\<close>, one row per input file in input order, and the first cell of row \<open>i\<close>
  is the name of the \<open>i\<close>-th input file.
\<close>

lemma process_multiple_pdfs_table_shape:
  assumes "fst (process_multiple_pdfs env pdf_files query fs db) = Inr table"
  shows "columns table = [''file_name'', ''Invoice Items'', ''Invoice Date'', ''Business Name'', ''Total Amount'']
         \<and> length (rows table) = length pdf_files
         \<and> (\<forall>i<length pdf_files.
               length (rows table ! i) = 5 \<and> rows table ! i ! 0 = Some (name (pdf_files ! i)))"
proof -
  from assms obtain frames fs' db' where
    l: "process_loop env pdf_files query [] fs db = (Inr frames, fs', db')"
    and c: "pd_concat frames = Inr table"
    by (auto simp: process_multiple_pdfs_def split: prod.splits sum.splits)
  from process_loop_frames [OF l] obtain infos where
    n: "length infos = length pdf_files"
    and f: "frames = map (\<lambda>(f, info). result_frame (name f) info) (zip pdf_files infos)"
    by auto
  have ne: "frames \<noteq> []"
    using c by (auto simp: pd_concat_def)
  have all: "\<forall>df \<in> set frames. \<exists>n info. df = result_frame n info"
    using f by auto
  have t: "table = \<lparr>columns = result_columns, rows = concat (map rows frames)\<rparr>"
    using pd_concat_result_frames [OF ne all] c by simp
  have r: "concat (map rows frames)
             = map (\<lambda>(f, info). [Some (name f), Some (invoice_items info), Some (invoice_date info),
                                  Some (business_name info), Some (total_amount info)])
                 (zip pdf_files infos)"
    unfolding f by (induction pdf_files infos rule: list_induct2') (auto simp: result_frame_def)
  show ?thesis
    using n by (simp add: t r result_columns_def)
qed

text \<open>With no input file, \<open>pd.concat\<close> has nothing to concatenate and raises.\<close>

lemma process_multiple_pdfs_empty:
  "fst (process_multiple_pdfs env [] query fs db) = Inl (ValueError ''No objects to concatenate'')"
  by (simp add: process_multiple_pdfs_def pd_concat_def)

text \<open>
  When the constructor of the embedder rejects the call of \<open>get_embedding_function\<close>, no
  run returns a table: the first file ends the run, in the parser or in
  \<open>create_vectorstore_from_texts\<close>, and the empty list ends in \<open>pd.concat\<close>.
\<close>

lemma create_vectorstore_from_texts_raises:
  assumes "OllamaEmbeddings env [(''model'', ''nomic-embed-text''), (''show_progress'', ''False'')]
             = Some e"
  shows "\<exists>e'. fst (create_vectorstore_from_texts env documents file_name db) = Inl e'"
  using assms
  by (simp add: create_vectorstore_from_texts_def get_embedding_function_def split: sum.splits)

lemma process_multiple_pdfs_never_returns_table:
  assumes "OllamaEmbeddings env [(''model'', ''nomic-embed-text''), (''show_progress'', ''False'')]
             = Some e"
  shows "\<exists>e'. fst (process_multiple_pdfs env pdf_files query fs db) = Inl e'"
proof (cases pdf_files)
  case Nil
  then show ?thesis by (simp add: process_multiple_pdfs_empty)
next
  case (Cons f rest)
  have "\<exists>e'. fst (process_loop env (f # rest) query [] fs db) = Inl e'"
  proof (cases "get_pdf_text env f fs")
    case (Pair r fs1)
    show ?thesis
    proof (cases r)
      case (Inl e1)
      with Pair show ?thesis by (simp add: Let_def)
    next
      case (Inr documents)
      from create_vectorstore_from_texts_raises [OF assms, of documents "name f" db]
      obtain e' where "fst (create_vectorstore_from_texts env documents (name f) db) = Inl e'"
        by blast
      with Pair Inr show ?thesis
        by (cases "create_vectorstore_from_texts env documents (name f) db") (simp add: Let_def)
    qed
  qed
  then show ?thesis
    using Cons by (auto simp: process_multiple_pdfs_def split: prod.splits sum.splits)
qed

text \<open>
  Claim C7, evaluated. For a list of one readable file the run ends in
  \<open>get_embedding_function\<close>: the constructor of the embedder rejects the keyword
  \<open>show_progress\<close>, and no table is returned. For the empty list the run ends in
  \<open>pd.concat\<close> with a \<open>ValueError\<close>, and no table of zero rows is returned.
\<close>

theorem batch_returns_no_table:
  "fst (process_multiple_pdfs stub_env
          [\<lparr>name = ''Invoice.pdf'', read = Inr ''a''\<rparr>] ''q'' Map.empty Map.empty)
     = Inl (External ''ValidationError'')
   \<and> fst (process_multiple_pdfs stub_env [] ''q'' Map.empty Map.empty)
     = Inl (ValueError ''No objects to concatenate'')"
  by code_simp

text \<open>
  Claim C8. When the files before \<open>f\<close> have been processed and a stage of \<open>f\<close> fails with
  the error \<open>e\<close> (parsing; splitting, embedding or storing; retrieval or the model call),
  the whole run ends with \<open>e\<close>, whatever files follow: no table is returned, so none with a
  row for \<open>f\<close>.
\<close>

theorem batch_fail_fast:
  assumes pre: "fst (process_loop env pre query [] fs db) = Inr frames"
    and state: "snd (process_loop env pre query [] fs db) = (fs1, db1)"
    and stage:
      "fst (get_pdf_text env f fs1) = Inl e
       \<or> (\<exists>documents. fst (get_pdf_text env f fs1) = Inr documents
             \<and> (fst (create_vectorstore_from_texts env documents (name f) db1) = Inl e
                \<or> (\<exists>vs. fst (create_vectorstore_from_texts env documents (name f) db1) = Inr vs
                      \<and> query_document env vs query
                            (snd (create_vectorstore_from_texts env documents (name f) db1)) = Inl e)))"
  shows "fst (process_multiple_pdfs env (pre @ f # post) query fs db) = Inl e"
proof -
  have l: "process_loop env pre query [] fs db = (Inr frames, fs1, db1)"
    using pre state by (cases "process_loop env pre query [] fs db") simp
  have "fst (process_loop env (f # post) query frames fs1 db1) = Inl e"
    using stage by (auto simp: Let_def split: prod.splits sum.splits)
  then show ?thesis
    using l by (auto simp: process_multiple_pdfs_def process_loop_append split: prod.splits sum.splits)
qed

theorem batch_fail_fast_witness:
  "fst (process_multiple_pdfs stub_env
         ([] @ \<lparr>name = ''Invoice (1).pdf'', read = Inr ''corrupt''\<rparr>
          # [\<lparr>name = ''Invoice (2).pdf'', read = Inr ''a''\<rparr>]) ''q'' Map.empty Map.empty)
     = Inl (External ''ParseFailure'')"
proof -
  let ?f = "\<lparr>name = ''Invoice (1).pdf'', read = Inr ''corrupt''\<rparr>"
  have p: "fst (process_loop stub_env [] ''q'' [] Map.empty Map.empty) = Inr []"
    by simp
  have s: "snd (process_loop stub_env [] ''q'' [] Map.empty Map.empty) = (Map.empty, Map.empty)"
    by simp
  have g: "fst (get_pdf_text stub_env ?f Map.empty) = Inl (External ''ParseFailure'')"
    by (simp add: get_pdf_text_def get_pdf_text_try_def os_unlink_def stub_env_sel)
  from g have st:
    "fst (get_pdf_text stub_env ?f Map.empty) = Inl (External ''ParseFailure'')
     \<or> (\<exists>documents. fst (get_pdf_text stub_env ?f Map.empty) = Inr documents
           \<and> (fst (create_vectorstore_from_texts stub_env documents (name ?f) Map.empty)
                 = Inl (External ''ParseFailure'')
              \<or> (\<exists>vs. fst (create_vectorstore_from_texts stub_env documents (name ?f) Map.empty)
                          = Inr vs
                    \<and> query_document stub_env vs ''q''
                          (snd (create_vectorstore_from_texts stub_env documents (name ?f) Map.empty))
                        = Inl (External ''ParseFailure''))))"
    by (rule disjI1)
  from batch_fail_fast [OF p s st] show ?thesis .
qed

subsection \<open>The chunks of split_document\<close>

lemma pieces_len_simps [simp]:
  "pieces_len [] = 0"
  "pieces_len (x # xs) = int (length x) + pieces_len xs"
  "pieces_len (xs @ ys) = pieces_len xs + pieces_len ys"
  by (simp_all add: pieces_len_def)




























text \<open>
  The trace of the page \<open>aa bb cc dd ee ff\<close> with chunk size 8 and overlap 4: the second
  window keeps the piece \<open> cc\<close> of the first (three characters; one more piece would make
  six), and so on.
\<close>

lemma merge_trace_example:
  "merge_trace 8 4 [''aa'', '' bb'', '' cc'', '' dd'', '' ee'', '' ff''] [] [] [] 0
     = Some [([], [''aa'', '' bb'', '' cc'']), (['' cc''], ['' dd'']),
             (['' dd''], ['' ee'']), (['' ee''], ['' ff''])]
   \<and> successively (carries_over 8 4)
         [([], [''aa'', '' bb'', '' cc'']), (['' cc''], ['' dd'']),
          (['' dd''], ['' ee'']), (['' ee''], ['' ff''])]
   \<and> \<not> carries_over 8 4 ([], [''aa'', '' bb'', '' cc'']) ([], ['' dd''])
   \<and> \<not> carries_over 8 4 ([], [''aa'', '' bb'', '' cc'']) (['' bb'', '' cc''], ['' dd''])"
  by code_simp




end
